theory Spec2Isabelle
  imports Complex_Main
begin

section \<open>Values read from JSON\<close>

text \<open>
  \<^verbatim>\<open>json.load\<close> returns Python values: \<^verbatim>\<open>None\<close>, \<^verbatim>\<open>bool\<close>, \<^verbatim>\<open>int\<close>,
  \<^verbatim>\<open>float\<close>, \<^verbatim>\<open>str\<close>, \<^verbatim>\<open>list\<close> and \<^verbatim>\<open>dict\<close>.  A finite float is
  represented by the rational number it denotes (every double is one; the sign of a zero is
  not kept), which is all that Python's comparison of numbers looks at; \<^verbatim>\<open>Infinity\<close>,
  \<^verbatim>\<open>-Infinity\<close> and \<^verbatim>\<open>NaN\<close> are the three constants the decoder accepts besides.
  A dict is the list of its items in insertion order, which is the order \<^verbatim>\<open>.items()\<close>
  iterates in.  The keys of a dict that \<^verbatim>\<open>json.load\<close> returns are strings, and they
  are distinct (of a repeated key the decoder keeps the last value); a lookup is
  \<open>map_of\<close>, and nothing proved below needs the keys to be distinct.
\<close>

datatype pyfloat = Finite rat | PosInf | NegInf | NaN

datatype json =
    JNull
  | JBool bool
  | JInt int
  | JFloat pyfloat
  | JStr string
  | JList "json list"
  | JObj "(string \<times> json) list"

text \<open>
  The exceptions that no \<^verbatim>\<open>except\<close> clause of the program catches.  The only one that
  the program can raise is the \<^verbatim>\<open>TypeError\<close> of line 105: a \<^verbatim>\<open>Counter\<close> is a dict,
  and indexing it with a list or a dict raises \<^verbatim>\<open>TypeError: unhashable type\<close>.
\<close>

datatype py_exception = TypeError

subsection \<open>int() on a string\<close>

text \<open>
  \<^verbatim>\<open>int(s)\<close> for a string: surrounding whitespace is dropped, one sign is allowed, then
  decimal digits follow, where single underscores may separate digits.  Anything else raises
  \<^verbatim>\<open>ValueError\<close>, modelled as \<open>None\<close>.  A character is a code point below 256.
  The whitespace \<^verbatim>\<open>int\<close> drops is the ASCII one of C (tab, line feed, vertical tab,
  form feed, carriage return, space) and, above ASCII, what Unicode calls a space: below 256
  these are U+0085 and U+00A0.  The decimal digits and spaces of Unicode beyond 255, which
  \<^verbatim>\<open>int\<close> accepts as well, have no counterpart here, nor has the limit on the number
  of digits that recent interpreters impose (exceeding it is a \<^verbatim>\<open>ValueError\<close> too).
\<close>

definition py_isspace :: "char \<Rightarrow> bool" where
  "py_isspace c \<longleftrightarrow> (of_char c :: nat) \<in> set [9, 10, 11, 12, 13, 32, 133, 160]"

definition py_isdigit :: "char \<Rightarrow> bool" where
  "py_isdigit c \<longleftrightarrow> c \<in> set ''0123456789''"

definition digit_value :: "char \<Rightarrow> nat" where
  "digit_value c = of_char c - 48"

definition py_strip :: "string \<Rightarrow> string" where
  "py_strip s = rev (dropWhile py_isspace (rev (dropWhile py_isspace s)))"

fun digits_tail :: "nat \<Rightarrow> string \<Rightarrow> nat option" where
  "digits_tail acc [] = Some acc"
| "digits_tail acc [c] =
     (if py_isdigit c then Some (10 * acc + digit_value c) else None)"
| "digits_tail acc (c # d # cs) =
     (if py_isdigit c then digits_tail (10 * acc + digit_value c) (d # cs)
      else if c = CHR ''_'' \<and> py_isdigit d then digits_tail (10 * acc + digit_value d) cs
      else None)"

definition parse_unsigned :: "string \<Rightarrow> nat option" where
  "parse_unsigned s =
     (case s of
        [] \<Rightarrow> None
      | c # cs \<Rightarrow> if py_isdigit c then digits_tail (digit_value c) cs else None)"

definition py_int :: "string \<Rightarrow> int option" where
  "py_int s =
     (case py_strip s of
        [] \<Rightarrow> None
      | c # cs \<Rightarrow>
          if c = CHR ''-'' then map_option (\<lambda>n. - int n) (parse_unsigned cs)
          else if c = CHR ''+'' then map_option int (parse_unsigned cs)
          else map_option int (parse_unsigned (c # cs)))"

subsection \<open>Keys of a Counter\<close>

text \<open>
  Two values are the same dict key when they are equal and hash alike.  Among the values
  \<^verbatim>\<open>json.load\<close> returns: \<^verbatim>\<open>True == 1 == 1.0\<close> and \<^verbatim>\<open>False == 0 == 0.0\<close>, an int
  and a float are equal when they denote the same number, the decoder returns one and the
  same \<^verbatim>\<open>NaN\<close> object each time (so it is one key), and lists and dicts are not
  hashable.  \<open>py_hashable_key\<close> maps a value to what identifies it as a key, or to
  \<open>None\<close> when using it as a key raises \<^verbatim>\<open>TypeError\<close>.
\<close>

datatype hkey = KNull | KNum rat | KPosInf | KNegInf | KNaN | KStr string

fun py_hashable_key :: "json \<Rightarrow> hkey option" where
  "py_hashable_key JNull = Some KNull"
| "py_hashable_key (JBool b) = Some (KNum (if b then 1 else 0))"
| "py_hashable_key (JInt i) = Some (KNum (of_int i))"
| "py_hashable_key (JFloat (Finite r)) = Some (KNum r)"
| "py_hashable_key (JFloat PosInf) = Some KPosInf"
| "py_hashable_key (JFloat NegInf) = Some KNegInf"
| "py_hashable_key (JFloat NaN) = Some KNaN"
| "py_hashable_key (JStr s) = Some (KStr s)"
| "py_hashable_key (JList xs) = None"
| "py_hashable_key (JObj kvs) = None"

text \<open>
  A \<^verbatim>\<open>Counter\<close> as the list of its items in insertion order.
  \<^verbatim>\<open>c[k] += 1\<close> on a hashable \<open>k\<close>: a key equal to \<open>k\<close> keeps its place (and the
  key object first inserted) and its count grows by one; a new key is appended with count 1.
\<close>

fun counter_incr :: "(json \<times> int) list \<Rightarrow> json \<Rightarrow> (json \<times> int) list" where
  "counter_incr [] k = [(k, 1)]"
| "counter_incr ((k', n) # c) k =
     (if py_hashable_key k' = py_hashable_key k then (k', n + 1) # c
      else (k', n) # counter_incr c k)"

section \<open>The target aggregator\<close>

record target =
  scene_id :: int
  im_id :: int
  obj_id :: json
  inst_count :: int

text \<open>Lines 103 to 107: the loop over the annotations of one image.\<close>

fun count_annotations ::
  "(json \<times> int) list \<Rightarrow> json list \<Rightarrow> py_exception + (json \<times> int) list" where
  "count_annotations obj_counts_in_image [] = Inr obj_counts_in_image"
| "count_annotations obj_counts_in_image (ann # anns) =
     (case ann of
        JObj kvs \<Rightarrow>
          (case map_of kvs ''obj_id'' of
             Some v \<Rightarrow>
               (case py_hashable_key v of
                  None \<Rightarrow> Inl TypeError
                | Some h \<Rightarrow> count_annotations (counter_incr obj_counts_in_image v) anns)
           | None \<Rightarrow> count_annotations obj_counts_in_image anns)
      | _ \<Rightarrow> count_annotations obj_counts_in_image anns)"

text \<open>
  Lines 92 to 115: the body of the loop over the images, as the list of records it appends
  to \<^verbatim>\<open>targets\<close>.  An entry that is skipped (\<^verbatim>\<open>continue\<close>) appends nothing.
\<close>

definition image_targets :: "int \<Rightarrow> string \<times> json \<Rightarrow> py_exception + target list" where
  "image_targets scene_id_int entry =
     (case entry of (im_id_str, gt_annotations) \<Rightarrow>
        (case py_int im_id_str of
           None \<Rightarrow> Inr []
         | Some im_id_int \<Rightarrow>
             (case gt_annotations of
                JList anns \<Rightarrow>
                  (case count_annotations [] anns of
                     Inl e \<Rightarrow> Inl e
                   | Inr obj_counts_in_image \<Rightarrow>
                       Inr (map (\<lambda>(k, n). \<lparr>scene_id = scene_id_int, im_id = im_id_int,
                                           obj_id = k, inst_count = n\<rparr>)
                              obj_counts_in_image))
              | _ \<Rightarrow> Inr [])))"

text \<open>Lines 91 to 115: the loop over the images, \<^verbatim>\<open>targets\<close> being the accumulator.\<close>

fun targets_loop ::
  "int \<Rightarrow> (string \<times> json) list \<Rightarrow> target list \<Rightarrow> py_exception + target list" where
  "targets_loop scene_id_int [] targets = Inr targets"
| "targets_loop scene_id_int (entry # rest) targets =
     (case image_targets scene_id_int entry of
        Inl e \<Rightarrow> Inl e
      | Inr new \<Rightarrow> targets_loop scene_id_int rest (targets @ new))"

text \<open>
  Lines 86 to 115.  The three ways the stage ends: the value is not a dict (line 89, the
  function returns), an exception escapes, or the list of targets is complete.
\<close>

datatype 'a aggregated = NotADict | Raised py_exception | Targets 'a

definition aggregate :: "json \<Rightarrow> int \<Rightarrow> target list aggregated" where
  "aggregate scene_gt_data scene_id_int =
     (case scene_gt_data of
        JObj items \<Rightarrow>
          (case targets_loop scene_id_int items [] of
             Inl e \<Rightarrow> Raised e
           | Inr targets \<Rightarrow> Targets targets)
      | _ \<Rightarrow> NotADict)"

text \<open>Line 87, \<^verbatim>\<open>isinstance(scene_gt_data, dict)\<close>.\<close>

fun is_dict :: "json \<Rightarrow> bool" where
  "is_dict (JObj items) = True"
| "is_dict _ = False"

text \<open>The records a run of the aggregator hands on: none when it does not complete.\<close>

fun emitted :: "target list aggregated \<Rightarrow> target list" where
  "emitted (Targets ts) = ts"
| "emitted _ = []"


fun annotates :: "json \<Rightarrow> json \<Rightarrow> bool" where
  "annotates k (JObj kvs) =
     (case map_of kvs ''obj_id'' of
        Some v \<Rightarrow> py_hashable_key v = py_hashable_key k
      | None \<Rightarrow> False)"
| "annotates k _ = False"


text \<open>The count a \<^verbatim>\<open>Counter\<close> holds under the key \<open>h\<close>.\<close>

definition count_of :: "(json \<times> int) list \<Rightarrow> hkey option \<Rightarrow> int" where
  "count_of c h = sum_list (map snd (filter (\<lambda>kn. py_hashable_key (fst kn) = h) c))"

section \<open>Paths and files\<close>

text \<open>
  The file system is a map from path strings to nodes: a regular file with its bytes, or a
  directory.  Paths are compared as strings, as line 54 of the program compares them; two
  different strings that the operating system would resolve to one file (through
  \<^verbatim>\<open>..\<close>, doubled separators or links) are two paths here.  Faults of the device or of
  permissions are not part of the model: an operation fails only where the kind of a node
  makes it fail.  \<^verbatim>\<open>os.path\<close> is the POSIX one.
\<close>

datatype node = File string | Dir

type_synonym filesys = "string \<rightharpoonup> node"

definition path_exists :: "filesys \<Rightarrow> string \<Rightarrow> bool" where
  "path_exists fs p \<longleftrightarrow> fs p \<noteq> None"

definition path_isdir :: "filesys \<Rightarrow> string \<Rightarrow> bool" where
  "path_isdir fs p \<longleftrightarrow> fs p = Some Dir"

fun startswith_sep :: "string \<Rightarrow> bool" where
  "startswith_sep [] = False"
| "startswith_sep (c # cs) = (c = CHR ''/'')"

definition endswith_sep :: "string \<Rightarrow> bool" where
  "endswith_sep p = startswith_sep (rev p)"

text \<open>\<^verbatim>\<open>os.path.join(a, b)\<close>; with more arguments it is applied from the left.\<close>

definition path_join :: "string \<Rightarrow> string \<Rightarrow> string" where
  "path_join a b =
     (if startswith_sep b then b
      else if a = [] \<or> endswith_sep a then a @ b
      else a @ ''/'' @ b)"

definition basename :: "string \<Rightarrow> string" where
  "basename p = rev (takeWhile (\<lambda>c. c \<noteq> CHR ''/'') (rev p))"

definition dirname :: "string \<Rightarrow> string" where
  "dirname p =
     (let head = rev (dropWhile (\<lambda>c. c \<noteq> CHR ''/'') (rev p))
      in if head \<noteq> [] \<and> \<not> list_all (\<lambda>c. c = CHR ''/'') head
         then rev (dropWhile (\<lambda>c. c = CHR ''/'') (rev head))
         else head)"

text \<open>
  \<^verbatim>\<open>shutil.copy2(src, dst)\<close>: the source must be a regular file; when the destination is
  a directory the file is copied into it under the source's base name.  \<open>None\<close> is an
  exception, which leaves the file system as it was.
\<close>

definition copy2 :: "filesys \<Rightarrow> string \<Rightarrow> string \<Rightarrow> filesys option" where
  "copy2 fs src dst =
     (case fs src of
        Some (File bytes) \<Rightarrow>
          (case fs dst of
             Some Dir \<Rightarrow>
               (let inside = path_join dst (basename src)
                in case fs inside of
                     Some Dir \<Rightarrow> None
                   | _ \<Rightarrow> Some (fs(inside \<mapsto> File bytes)))
           | _ \<Rightarrow> Some (fs(dst \<mapsto> File bytes)))
      | _ \<Rightarrow> None)"

text \<open>
  Lines 80 and 81: \<^verbatim>\<open>open\<close> for reading and \<^verbatim>\<open>json.load\<close>, the decoder being a
  parameter (\<open>None\<close> where it raises).
\<close>

definition load_json :: "(string \<Rightarrow> json option) \<Rightarrow> filesys \<Rightarrow> string \<Rightarrow> json option" where
  "load_json json_load fs p =
     (case fs p of
        Some (File bytes) \<Rightarrow> json_load bytes
      | _ \<Rightarrow> None)"

text \<open>
  \<^verbatim>\<open>os.makedirs(d, exist_ok=True)\<close>: the empty path and a path that is a regular file
  raise; the directories above \<open>d\<close> are not entered in the map.
\<close>

definition makedirs :: "filesys \<Rightarrow> string \<Rightarrow> filesys option" where
  "makedirs fs d =
     (if d = [] then None
      else case fs d of
             Some (File bytes) \<Rightarrow> None
           | Some Dir \<Rightarrow> Some fs
           | None \<Rightarrow> Some (fs(d \<mapsto> Dir)))"

section \<open>The run\<close>

text \<open>
  The function returns nothing and reports on standard output; \<open>outcome\<close> names the
  place where it returns: line 18, 51, 62, 73, 84, 89, an exception that escapes, line 130,
  or the end, with the targets that were saved.  The messages themselves are not modelled.
\<close>

datatype outcome =
    MissingScene
  | MissingGT
  | GTCopyFailed
  | GTUnavailable
  | LoadFailed
  | MalformedGroundTruth
  | Uncaught py_exception
  | WriteFailed
  | Saved "target list"

text \<open>Line 13, \<^verbatim>\<open>f"{scene_id_int:06d}"\<close>: the sign counts towards the width.\<close>

fun dec_digits :: "nat \<Rightarrow> string" where
  "dec_digits n =
     (if n < 10 then [char_of (48 + n)]
      else dec_digits (n div 10) @ [char_of (48 + n mod 10)])"

declare dec_digits.simps [simp del]

definition zfill :: "nat \<Rightarrow> string \<Rightarrow> string" where
  "zfill w s = replicate (w - length s) CHR ''0'' @ s"

definition format_06d :: "int \<Rightarrow> string" where
  "format_06d n =
     (if n < 0 then ''-'' @ zfill 5 (dec_digits (nat (- n)))
      else zfill 6 (dec_digits (nat n)))"

definition standard_files_to_prepare :: "(string \<times> string) list" where
  "standard_files_to_prepare =
     [(''camera'', ''scene_camera.json''),
      (''gt'', ''scene_gt.json''),
      (''gt_info'', ''scene_gt_info.json'')]"

text \<open>Lines 35 to 38.\<close>

definition actual_src_name :: "string \<Rightarrow> string \<Rightarrow> string \<Rightarrow> string" where
  "actual_src_name sensor_suffix key std_name =
     (if sensor_suffix = [] then std_name
      else ''scene_'' @ key @ ''_'' @ sensor_suffix @ ''.json'')"

text \<open>Lines 39 and 41.\<close>

definition actual_src_path :: "string \<Rightarrow> string \<Rightarrow> string \<Rightarrow> string \<Rightarrow> string" where
  "actual_src_path scene_path sensor_suffix key std_name =
     path_join scene_path (actual_src_name sensor_suffix key std_name)"

definition dst_path :: "string \<Rightarrow> string \<Rightarrow> string" where
  "dst_path scene_path std_name = path_join scene_path std_name"

text \<open>
  Lines 35 to 66, the body of the loop over the three kinds of file.  The state is the
  file system and \<^verbatim>\<open>gt_file_successfully_prepared\<close>; \<open>Inl\<close> is a \<^verbatim>\<open>return\<close>.
\<close>

definition prepare_file ::
  "string \<Rightarrow> string \<Rightarrow> string \<times> string \<Rightarrow> filesys \<times> bool \<Rightarrow>
     (outcome \<times> filesys) + (filesys \<times> bool)" where
  "prepare_file scene_path sensor_suffix item st =
     (case (item, st) of ((key, std_name), (fs, prepared)) \<Rightarrow>
        if \<not> path_exists fs (actual_src_path scene_path sensor_suffix key std_name) then
          (if key = ''gt'' \<and> \<not> path_exists fs (dst_path scene_path std_name)
           then Inl (MissingGT, fs)
           else Inr (fs, prepared))
        else if actual_src_path scene_path sensor_suffix key std_name
                  \<noteq> dst_path scene_path std_name then
          (case copy2 fs (actual_src_path scene_path sensor_suffix key std_name)
                  (dst_path scene_path std_name) of
             Some fs' \<Rightarrow> Inr (fs', if key = ''gt'' then True else prepared)
           | None \<Rightarrow> if key = ''gt'' then Inl (GTCopyFailed, fs) else Inr (fs, prepared))
        else Inr (fs, if key = ''gt'' then True else prepared))"

fun prepare_files ::
  "string \<Rightarrow> string \<Rightarrow> (string \<times> string) list \<Rightarrow> filesys \<times> bool \<Rightarrow>
     (outcome \<times> filesys) + (filesys \<times> bool)" where
  "prepare_files scene_path sensor_suffix [] st = Inr st"
| "prepare_files scene_path sensor_suffix (item # rest) st =
     (case prepare_file scene_path sensor_suffix item st of
        Inl r \<Rightarrow> Inl r
      | Inr st' \<Rightarrow> prepare_files scene_path sensor_suffix rest st')"

text \<open>Line 69.\<close>

definition final_gt_file_for_targets :: "string \<Rightarrow> string" where
  "final_gt_file_for_targets scene_path = path_join scene_path ''scene_gt.json''"

text \<open>
  Lines 26 to 73, the file resolver: the loop, then the check that the ground truth is at
  its standard path.  \<open>Inr\<close> is success, with the file system the aggregator starts from.
\<close>

definition resolve :: "filesys \<Rightarrow> string \<Rightarrow> string \<Rightarrow> (outcome \<times> filesys) + filesys" where
  "resolve fs scene_path sensor_suffix =
     (case prepare_files scene_path sensor_suffix standard_files_to_prepare (fs, False) of
        Inl r \<Rightarrow> Inl r
      | Inr (fs', prepared) \<Rightarrow>
          if \<not> path_exists fs' (final_gt_file_for_targets scene_path) \<and> \<not> prepared
          then Inl (GTUnavailable, fs')
          else Inr fs')"

text \<open>Lines 123 to 130, the encoder \<^verbatim>\<open>json.dump\<close> being a parameter.\<close>

definition save_targets ::
  "(target list \<Rightarrow> string) \<Rightarrow> filesys \<Rightarrow> string \<Rightarrow> target list \<Rightarrow> outcome \<times> filesys" where
  "save_targets json_dump fs output_targets_path targets =
     (case makedirs fs (dirname output_targets_path) of
        None \<Rightarrow> (WriteFailed, fs)
      | Some fs' \<Rightarrow>
          (case fs' output_targets_path of
             Some Dir \<Rightarrow> (WriteFailed, fs')
           | _ \<Rightarrow> (Saved targets, fs'(output_targets_path \<mapsto> File (json_dump targets)))))"

text \<open>Lines 77 to 130: load the ground truth, aggregate, save.\<close>

definition generate_targets ::
  "(string \<Rightarrow> json option) \<Rightarrow> (target list \<Rightarrow> string) \<Rightarrow> filesys \<Rightarrow> string \<Rightarrow> int \<Rightarrow>
     string \<Rightarrow> outcome \<times> filesys" where
  "generate_targets json_load json_dump fs gt_file scene_id_int output_targets_path =
     (case load_json json_load fs gt_file of
        None \<Rightarrow> (LoadFailed, fs)
      | Some scene_gt_data \<Rightarrow>
          (case aggregate scene_gt_data scene_id_int of
             NotADict \<Rightarrow> (MalformedGroundTruth, fs)
           | Raised e \<Rightarrow> (Uncaught e, fs)
           | Targets targets \<Rightarrow> save_targets json_dump fs output_targets_path targets))"

definition scene_path_of :: "string \<Rightarrow> string \<Rightarrow> string \<Rightarrow> int \<Rightarrow> string" where
  "scene_path_of dataset_root dataset_name split scene_id_int =
     path_join (path_join (path_join dataset_root dataset_name) split) (format_06d scene_id_int)"

definition output_targets_path_of :: "string \<Rightarrow> string \<Rightarrow> string \<Rightarrow> string" where
  "output_targets_path_of dataset_root dataset_name output_targets_filename =
     path_join (path_join dataset_root dataset_name) output_targets_filename"

definition setup_scene_files_and_targets ::
  "(string \<Rightarrow> json option) \<Rightarrow> (target list \<Rightarrow> string) \<Rightarrow> filesys \<Rightarrow>
     string \<Rightarrow> string \<Rightarrow> string \<Rightarrow> int \<Rightarrow> string \<Rightarrow> string \<Rightarrow> outcome \<times> filesys" where
  "setup_scene_files_and_targets json_load json_dump fs
       dataset_root dataset_name split scene_id_int sensor_suffix output_targets_filename =
     (let scene_path = scene_path_of dataset_root dataset_name split scene_id_int
      in if \<not> path_isdir fs scene_path then (MissingScene, fs)
         else case resolve fs scene_path sensor_suffix of
                Inl r \<Rightarrow> r
              | Inr fs' \<Rightarrow>
                  generate_targets json_load json_dump fs'
                    (final_gt_file_for_targets scene_path) scene_id_int
                    (output_targets_path_of dataset_root dataset_name output_targets_filename))"


section \<open>The library functions on examples\<close>

text \<open>
  What the interpreter answers on these inputs, as a check of the definitions above that
  stand for library functions.
\<close>

lemma py_int_examples:
  "py_int ''007'' = Some 7"
  "py_int ''-0'' = Some 0"
  "py_int ''1_0_0'' = Some 100"
  "py_int [CHR 0x09, CHR 0x0A, CHR 0x0B, CHR 0x0C, CHR 0x0D, CHR '' '', CHR ''1'', CHR ''2'']
     = Some 12"
  "py_int [CHR 0xA0, CHR ''-'', CHR ''5''] = Some (- 5)"
  "py_int [CHR 0x1C, CHR ''5''] = None"
  "py_int [CHR ''-'', CHR 0xA0, CHR ''5''] = None"
  "py_int [] = None"
  "py_int '' '' = None"
  "py_int ''+'' = None"
  "py_int ''+-3'' = None"
  "py_int ''- 3'' = None"
  "py_int ''1 2'' = None"
  "py_int ''1__0'' = None"
  "py_int ''_1'' = None"
  "py_int ''1_'' = None"
  "py_int ''+_1'' = None"
  "py_int ''0x10'' = None"
  "py_int ''1.0'' = None"
  "py_int ''abc'' = None"
  by code_simp+

lemma counter_example:
  "count_annotations []
     (map (\<lambda>v. JObj [(''obj_id'', v)])
        [JFloat NaN, JFloat NaN, JFloat PosInf, JFloat NegInf, JFloat PosInf, JInt 5,
         JFloat (Finite 5), JBool True, JInt 1, JFloat (Finite 1), JBool False, JInt 0,
         JFloat (Finite 0), JNull, JStr ''5''])
   = Inr [(JFloat NaN, 2), (JFloat PosInf, 2), (JFloat NegInf, 1), (JInt 5, 2),
          (JBool True, 3), (JBool False, 3), (JNull, 1), (JStr ''5'', 1)]"
  by code_simp

lemma path_examples:
  "path_join (path_join (path_join ''d'' ''n'') ''s'') ''000004'' = ''d/n/s/000004''"
  "path_join ''d/n'' ''/abs'' = ''/abs''"
  "path_join (path_join [] []) ''x'' = ''x''"
  "path_join ''a/'' ''b'' = ''a/b''"
  "path_join ''a'' [] = ''a/''"
  "dirname ''d/n/out.json'' = ''d/n''"
  "dirname ''out.json'' = []"
  "dirname ''/out.json'' = ''/''"
  "dirname ''a//b'' = ''a''"
  "dirname ''//x'' = ''//''"
  "dirname ''a/b/'' = ''a/b''"
  "basename ''d/n/out.json'' = ''out.json''"
  "basename ''a/b/'' = []"
  by code_simp+

lemma format_06d_examples:
  "format_06d 4 = ''000004''"
  "format_06d 0 = ''000000''"
  "format_06d (- 4) = ''-00004''"
  "format_06d 123 = ''000123''"
  "format_06d (- 123) = ''-00123''"
  by code_simp+

text \<open>
  A run that succeeds: the three suffixed files are copied to the standard names, the ground
  truth is loaded and aggregated, and the targets are saved at the output path.
\<close>

lemma run_example:
  "fst (setup_scene_files_and_targets
          [''gt'' \<mapsto> JObj [(''0'', JList [JObj [(''obj_id'', JInt 5)], JObj [(''obj_id'', JInt 5)]])]]
          (\<lambda>targets. ''saved'')
          [''d/n/s/000004'' \<mapsto> Dir,
           ''d/n/s/000004/scene_camera_cam1.json'' \<mapsto> File ''camera'',
           ''d/n/s/000004/scene_gt_cam1.json'' \<mapsto> File ''gt'',
           ''d/n/s/000004/scene_gt_info_cam1.json'' \<mapsto> File ''info'']
          ''d'' ''n'' ''s'' 4 ''cam1'' ''targets_custom.json'')
   = Saved [\<lparr>scene_id = 4, im_id = 0, obj_id = JInt 5, inst_count = 2\<rparr>]"
  "map (snd (setup_scene_files_and_targets
          [''gt'' \<mapsto> JObj [(''0'', JList [JObj [(''obj_id'', JInt 5)], JObj [(''obj_id'', JInt 5)]])]]
          (\<lambda>targets. ''saved'')
          [''d/n/s/000004'' \<mapsto> Dir,
           ''d/n/s/000004/scene_camera_cam1.json'' \<mapsto> File ''camera'',
           ''d/n/s/000004/scene_gt_cam1.json'' \<mapsto> File ''gt'',
           ''d/n/s/000004/scene_gt_info_cam1.json'' \<mapsto> File ''info'']
          ''d'' ''n'' ''s'' 4 ''cam1'' ''targets_custom.json''))
      [''d/n/s/000004/scene_camera.json'', ''d/n/s/000004/scene_gt.json'',
       ''d/n/s/000004/scene_gt_info.json'', ''d/n/targets_custom.json'', ''d/n'']
   = [Some (File ''camera''), Some (File ''gt''), Some (File ''info''), Some (File ''saved''),
      Some Dir]"
  by code_simp+

section \<open>Properties of the aggregator\<close>

subsection \<open>The counter\<close>


lemma count_of_incr:
  "count_of (counter_incr c k) h = count_of c h + (if py_hashable_key k = h then 1 else 0)"
  by (induction c) (auto simp: count_of_def)

lemma keys_counter_incr:
  "map (\<lambda>kn. py_hashable_key (fst kn)) (counter_incr c k) =
     (if py_hashable_key k \<in> set (map (\<lambda>kn. py_hashable_key (fst kn)) c)
      then map (\<lambda>kn. py_hashable_key (fst kn)) c
      else map (\<lambda>kn. py_hashable_key (fst kn)) c @ [py_hashable_key k])"
  by (induction c) (fastforce simp: image_iff)+

lemma distinct_counter_incr:
  "distinct (map (\<lambda>kn. py_hashable_key (fst kn)) c) \<Longrightarrow>
   distinct (map (\<lambda>kn. py_hashable_key (fst kn)) (counter_incr c k))"
  by (simp only: keys_counter_incr split: if_splits) simp

lemma positive_counter_incr:
  "\<forall>kn\<in>set c. 1 \<le> snd kn \<Longrightarrow> \<forall>kn\<in>set (counter_incr c k). 1 \<le> snd kn"
  by (induction c) (fastforce split: if_splits)+

lemma count_of_member:
  "distinct (map (\<lambda>kn. py_hashable_key (fst kn)) c) \<Longrightarrow> (k, n) \<in> set c \<Longrightarrow>
   count_of c (py_hashable_key k) = n"
proof (induction c)
  case Nil
  then show ?case by simp
next
  case (Cons a c)
  show ?case
  proof (cases "a = (k, n)")
    case True
    with Cons.prems(1) have "filter (\<lambda>kn. py_hashable_key (fst kn) = py_hashable_key k) c = []"
      by (auto simp: filter_empty_conv image_iff)
    with True show ?thesis by (simp add: count_of_def)
  next
    case False
    with Cons.prems have in_c: "(k, n) \<in> set c" by simp
    with Cons.prems(1) have "py_hashable_key (fst a) \<noteq> py_hashable_key k"
      by (force simp: image_iff)
    with Cons.IH in_c Cons.prems(1) show ?thesis by (simp add: count_of_def)
  qed
qed

subsection \<open>The loop over the annotations\<close>


lemma count_annotations_inv:
  "count_annotations c anns = Inr c' \<Longrightarrow>
   distinct (map (\<lambda>kn. py_hashable_key (fst kn)) c) \<Longrightarrow> \<forall>kn\<in>set c. 1 \<le> snd kn \<Longrightarrow>
   distinct (map (\<lambda>kn. py_hashable_key (fst kn)) c') \<and> (\<forall>kn\<in>set c'. 1 \<le> snd kn)"
proof (induction anns arbitrary: c)
  case Nil
  then show ?case by simp
next
  case (Cons ann anns)
  show ?case
  proof (cases "\<exists>kvs v. ann = JObj kvs \<and> map_of kvs ''obj_id'' = Some v")
    case True
    then obtain kvs v where ann: "ann = JObj kvs" "map_of kvs ''obj_id'' = Some v" by blast
    with Cons.prems(1) have "count_annotations (counter_incr c v) anns = Inr c'"
      by (auto split: option.splits)
    from Cons.IH[OF this distinct_counter_incr[OF Cons.prems(2)]
        positive_counter_incr[OF Cons.prems(3)]]
    show ?thesis .
  next
    case False
    with Cons.prems(1) have "count_annotations c anns = Inr c'"
      by (cases ann) (auto split: option.splits)
    from Cons.IH[OF this Cons.prems(2) Cons.prems(3)] show ?thesis .
  qed
qed

lemma count_annotations_count_of:
  "count_annotations c anns = Inr c' \<Longrightarrow>
   count_of c' (py_hashable_key k) =
     count_of c (py_hashable_key k) + int (length (filter (annotates k) anns))"
proof (induction anns arbitrary: c)
  case Nil
  then show ?case by simp
next
  case (Cons ann anns)
  then show ?case
    by (cases ann) (auto simp: count_of_incr split: option.splits)
qed

subsection \<open>The loop over the images\<close>




lemma targets_loop_record:
  "targets_loop sid items acc = Inr targets \<Longrightarrow> t \<in> set targets \<Longrightarrow>
   t \<in> set acc \<or> (\<exists>e rs. e \<in> set items \<and> image_targets sid e = Inr rs \<and> t \<in> set rs)"
proof (induction items arbitrary: acc)
  case Nil
  then show ?case by simp
next
  case (Cons e items)
  from Cons.prems(1) obtain new where new: "image_targets sid e = Inr new"
    and loop: "targets_loop sid items (acc @ new) = Inr targets"
    by (auto split: sum.splits)
  from Cons.IH[OF loop Cons.prems(2)] new show ?case by (cases e) fastforce
qed


lemma image_targets_record:
  assumes "image_targets sid (k, v) = Inr rs" "t \<in> set rs"
  shows "\<exists>anns. v = JList anns \<and> py_int k = Some (im_id t) \<and> scene_id t = sid \<and>
           1 \<le> inst_count t \<and>
           inst_count t = int (length (filter (annotates (obj_id t)) anns))"
proof -
  from assms obtain i anns c where v: "v = JList anns" and i: "py_int k = Some i"
    and c: "count_annotations [] anns = Inr c"
    and rs: "rs = map (\<lambda>(k, n). \<lparr>scene_id = sid, im_id = i, obj_id = k, inst_count = n\<rparr>) c"
    by (auto simp: image_targets_def split: option.splits json.splits sum.splits)
  from assms(2) rs obtain ko n where kn: "(ko, n) \<in> set c"
    and t: "t = \<lparr>scene_id = sid, im_id = i, obj_id = ko, inst_count = n\<rparr>"
    by auto
  from count_annotations_inv[OF c] have d: "distinct (map (\<lambda>kn. py_hashable_key (fst kn)) c)"
    and pos: "\<forall>kn\<in>set c. 1 \<le> snd kn" by simp_all
  from count_of_member[OF d kn] count_annotations_count_of[OF c, of ko]
  have "n = int (length (filter (annotates ko) anns))" by (simp add: count_of_def)
  moreover from pos kn have "1 \<le> n" by force
  ultimately show ?thesis using v i t by simp
qed

subsection \<open>The claims about the aggregator\<close>

text \<open>
  Claim C1.  For the ground truth
  \<^verbatim>\<open>{"0": [{"obj_id":5},{"obj_id":5},{"obj_id":7}], "1": []}\<close> and scene 4 the aggregator
  produces the record of object 5 in image 0 with count 2 and then the record of object 7 in
  image 0 with count 1, and nothing else; the body of the loop appends no record for the
  image \<^verbatim>\<open>"1"\<close>.
\<close>

theorem aggregate_two_objects:
  "aggregate
     (JObj [(''0'', JList [JObj [(''obj_id'', JInt 5)], JObj [(''obj_id'', JInt 5)],
                          JObj [(''obj_id'', JInt 7)]]),
            (''1'', JList [])]) 4
   = Targets [\<lparr>scene_id = 4, im_id = 0, obj_id = JInt 5, inst_count = 2\<rparr>,
              \<lparr>scene_id = 4, im_id = 0, obj_id = JInt 7, inst_count = 1\<rparr>]
   \<and> image_targets 4 (''1'', JList []) = Inr []"
  by code_simp




text \<open>
  Claim C3.  Every record the aggregator emits has \<^verbatim>\<open>inst_count\<close> at least 1: it
  comes from an image entry whose key coerces to the record's \<^verbatim>\<open>im_id\<close> and whose
  value is a list, and its count is the number of annotations of that list that are counted
  under the key of the record's \<^verbatim>\<open>obj_id\<close>.  So a pair of an image and an object with
  no annotation yields no record.
\<close>

theorem inst_count_positive:
  "\<forall>t\<in>set (emitted (aggregate scene_gt_data sid)).
     1 \<le> inst_count t \<and>
     (\<exists>items k anns. scene_gt_data = JObj items \<and> (k, JList anns) \<in> set items \<and>
        py_int k = Some (im_id t) \<and>
        inst_count t = int (length (filter (annotates (obj_id t)) anns)))"
proof
  fix t assume t: "t \<in> set (emitted (aggregate scene_gt_data sid))"
  then obtain items targets where gt: "scene_gt_data = JObj items"
    and loop: "targets_loop sid items [] = Inr targets" and tt: "t \<in> set targets"
    by (cases scene_gt_data) (auto simp: aggregate_def split: sum.splits)
  from targets_loop_record[OF loop tt] obtain k v rs where e: "(k, v) \<in> set items"
    and rs: "image_targets sid (k, v) = Inr rs" "t \<in> set rs"
    by auto
  from image_targets_record[OF rs] e gt show "1 \<le> inst_count t \<and>
     (\<exists>items k anns. scene_gt_data = JObj items \<and> (k, JList anns) \<in> set items \<and>
        py_int k = Some (im_id t) \<and>
        inst_count t = int (length (filter (annotates (obj_id t)) anns)))"
    by auto
qed

theorem inst_count_positive_witness:
  "\<lparr>scene_id = 4, im_id = 0, obj_id = JInt 5, inst_count = 2\<rparr>
     \<in> set (emitted (aggregate
         (JObj [(''0'', JList [JObj [(''obj_id'', JInt 5)], JObj [(''obj_id'', JFloat (Finite 5))],
                              JObj [(''obj_id'', JInt 7)]])]) 4)) \<and>
   (1 \<le> inst_count \<lparr>scene_id = 4, im_id = 0, obj_id = JInt 5, inst_count = 2\<rparr> \<and>
    (\<exists>items k anns.
       JObj [(''0'', JList [JObj [(''obj_id'', JInt 5)], JObj [(''obj_id'', JFloat (Finite 5))],
                            JObj [(''obj_id'', JInt 7)]])] = JObj items \<and>
       (k, JList anns) \<in> set items \<and>
       py_int k = Some (im_id \<lparr>scene_id = 4, im_id = 0, obj_id = JInt 5, inst_count = 2\<rparr>) \<and>
       inst_count \<lparr>scene_id = 4, im_id = 0, obj_id = JInt 5, inst_count = 2\<rparr> =
         int (length (filter
           (annotates (obj_id \<lparr>scene_id = 4, im_id = 0, obj_id = JInt 5, inst_count = 2\<rparr>))
           anns))))"
proof -
  have mem: "\<lparr>scene_id = 4, im_id = 0, obj_id = JInt 5, inst_count = 2\<rparr>
     \<in> set (emitted (aggregate
         (JObj [(''0'', JList [JObj [(''obj_id'', JInt 5)], JObj [(''obj_id'', JFloat (Finite 5))],
                              JObj [(''obj_id'', JInt 7)]])]) 4))"
    by code_simp
  show ?thesis
    by (rule conjI[OF mem bspec[OF inst_count_positive mem]])
qed



text \<open>
  Claim C10.  The coercion of an image key is \<^verbatim>\<open>int()\<close>, which accepts more than the
  string forms of the non-negative integers: a sign, surrounding whitespace and underscores
  between digits.  The key \<^verbatim>\<open>"-3"\<close> coerces to \<open>-3\<close>, and the aggregator emits a record
  with that negative \<^verbatim>\<open>im_id\<close> instead of skipping the entry.
\<close>

theorem negative_image_key_accepted:
  "py_int ''-3'' = Some (- 3) \<and>
   py_int '' +1_0 '' = Some 10 \<and>
   aggregate (JObj [(''-3'', JList [JObj [(''obj_id'', JInt 5)]])]) 4
   = Targets [\<lparr>scene_id = 4, im_id = - 3, obj_id = JInt 5, inst_count = 1\<rparr>]"
  by code_simp

section \<open>Properties of the resolver and of the run\<close>

subsection \<open>Paths\<close>

lemma startswith_sep_mem: "startswith_sep xs \<Longrightarrow> CHR ''/'' \<in> set xs"
  by (cases xs) auto

lemma basename_no_sep: "\<not> startswith_sep (basename p)"
proof
  assume "startswith_sep (basename p)"
  then have "CHR ''/'' \<in> set (basename p)" by (rule startswith_sep_mem)
  then show False by (auto simp: basename_def dest: set_takeWhileD)
qed

lemma path_join_name:
  "path_join sp (CHR ''s'' # rest) =
     (if sp = [] \<or> endswith_sep sp then sp else sp @ ''/'') @ CHR ''s'' # rest"
  by (simp add: path_join_def)

lemma path_join_inside:
  "\<not> startswith_sep bn \<Longrightarrow> path_join (X @ ''.json'') bn = X @ ''.json/'' @ bn"
  by (simp add: path_join_def endswith_sep_def)

subsection \<open>What a step of the loop leaves alone\<close>

lemma copy2_frame:
  "copy2 fs src dst = Some fs' \<Longrightarrow> p \<noteq> dst \<Longrightarrow> p \<noteq> path_join dst (basename src) \<Longrightarrow>
   fs' p = fs p"
  by (auto simp: copy2_def Let_def split: option.splits node.splits)

lemma prepare_file_frame:
  assumes "prepare_file sp sfx (key, std) (fs, fl) = r"
    and "p \<noteq> dst_path sp std"
    and "p \<noteq> path_join (dst_path sp std) (basename (actual_src_path sp sfx key std))"
  shows "case_sum snd fst r p = fs p"
  using assms
  by (auto simp: prepare_file_def copy2_frame split: option.splits if_splits)

lemma prepare_file_optional:
  "key \<noteq> ''gt'' \<Longrightarrow> \<exists>fs'. prepare_file sp sfx (key, std) (fs, fl) = Inr (fs', fl)"
  by (auto simp: prepare_file_def Let_def split: option.splits)

lemma prepare_files_standard:
  "prepare_files sp sfx standard_files_to_prepare st =
     (case prepare_file sp sfx (''camera'', ''scene_camera.json'') st of
        Inl r \<Rightarrow> Inl r
      | Inr st1 \<Rightarrow>
          (case prepare_file sp sfx (''gt'', ''scene_gt.json'') st1 of
             Inl r \<Rightarrow> Inl r
           | Inr st2 \<Rightarrow> prepare_file sp sfx (''gt_info'', ''scene_gt_info.json'') st2))"
  by (simp add: standard_files_to_prepare_def split: sum.splits)


lemma camera_step_gt:
  assumes "prepare_file sp sfx (''camera'', ''scene_camera.json'') (fs, fl) = Inr (fs', fl')"
  shows "fs' (dst_path sp ''scene_gt.json'') = fs (dst_path sp ''scene_gt.json'')"
    and "fs' (actual_src_path sp sfx ''gt'' ''scene_gt.json'')
         = fs (actual_src_path sp sfx ''gt'' ''scene_gt.json'')"
proof -
  let ?P = "if sp = [] \<or> endswith_sep sp then sp else sp @ ''/''"
  let ?bn = "basename (actual_src_path sp sfx ''camera'' ''scene_camera.json'')"
  have bn: "\<not> startswith_sep ?bn" by (rule basename_no_sep)
  note inside = path_join_inside[OF bn, of "?P @ ''scene_camera''"]
  have 1: "dst_path sp ''scene_gt.json'' \<noteq> dst_path sp ''scene_camera.json''"
    by (simp add: dst_path_def path_join_name)
  have 2: "dst_path sp ''scene_gt.json'' \<noteq> path_join (dst_path sp ''scene_camera.json'') ?bn"
    using inside by (simp add: dst_path_def path_join_name)
  have 3: "actual_src_path sp sfx ''gt'' ''scene_gt.json'' \<noteq> dst_path sp ''scene_camera.json''"
    by (simp add: dst_path_def actual_src_path_def path_join_name actual_src_name_def)
  have 4: "actual_src_path sp sfx ''gt'' ''scene_gt.json''
       \<noteq> path_join (dst_path sp ''scene_camera.json'') ?bn"
    using inside by (simp add: dst_path_def actual_src_path_def path_join_name actual_src_name_def)
  from prepare_file_frame[OF assms 1 2]
  show "fs' (dst_path sp ''scene_gt.json'') = fs (dst_path sp ''scene_gt.json'')"
    by simp
  from prepare_file_frame[OF assms 3 4]
  show "fs' (actual_src_path sp sfx ''gt'' ''scene_gt.json'')
         = fs (actual_src_path sp sfx ''gt'' ''scene_gt.json'')" by simp
qed

lemma info_step_gt:
  assumes "prepare_file sp sfx (''gt_info'', ''scene_gt_info.json'') (fs, fl) = Inr (fs', fl')"
  shows "fs' (dst_path sp ''scene_gt.json'') = fs (dst_path sp ''scene_gt.json'')"
proof -
  let ?P = "if sp = [] \<or> endswith_sep sp then sp else sp @ ''/''"
  let ?bn = "basename (actual_src_path sp sfx ''gt_info'' ''scene_gt_info.json'')"
  have bn: "\<not> startswith_sep ?bn" by (rule basename_no_sep)
  note inside = path_join_inside[OF bn, of "?P @ ''scene_gt_info''"]
  have 1: "dst_path sp ''scene_gt.json'' \<noteq> dst_path sp ''scene_gt_info.json''"
    by (simp add: dst_path_def path_join_name)
  have 2: "dst_path sp ''scene_gt.json'' \<noteq> path_join (dst_path sp ''scene_gt_info.json'') ?bn"
    using inside by (simp add: dst_path_def path_join_name)
  from prepare_file_frame[OF assms 1 2] show ?thesis by simp
qed

lemma gt_src_neq_dst:
  "sfx \<noteq> [] \<Longrightarrow> actual_src_path sp sfx ''gt'' ''scene_gt.json'' \<noteq> dst_path sp ''scene_gt.json''"
  by (simp add: dst_path_def actual_src_path_def path_join_name actual_src_name_def)

lemma gt_inside_neq_dst:
  "path_join (dst_path sp ''scene_gt.json'') (basename p) \<noteq> dst_path sp ''scene_gt.json''"
  using path_join_inside[OF basename_no_sep,
      of "(if sp = [] \<or> endswith_sep sp then sp else sp @ ''/'') @ ''scene_gt''" p]
  by (simp add: dst_path_def path_join_name)

subsection \<open>The resolver as a whole\<close>

lemma resolve_standard_names:
  assumes "path_exists fs (dst_path scene_path ''scene_gt.json'')"
  shows "resolve fs scene_path [] = Inr fs"
  using assms
  by (simp add: resolve_def standard_files_to_prepare_def prepare_file_def
      actual_src_path_def actual_src_name_def dst_path_def final_gt_file_for_targets_def)

lemma setup_after_resolve:
  assumes "path_isdir fs (scene_path_of dataset_root dataset_name split scene_id_int)"
  shows "setup_scene_files_and_targets json_load json_dump fs dataset_root dataset_name split
           scene_id_int sensor_suffix output_targets_filename =
         (case resolve fs (scene_path_of dataset_root dataset_name split scene_id_int)
                 sensor_suffix of
            Inl r \<Rightarrow> r
          | Inr fs' \<Rightarrow>
              generate_targets json_load json_dump fs'
                (final_gt_file_for_targets
                   (scene_path_of dataset_root dataset_name split scene_id_int))
                scene_id_int
                (output_targets_path_of dataset_root dataset_name output_targets_filename))"
  using assms by (simp add: setup_scene_files_and_targets_def Let_def)


subsection \<open>The claims about the resolver and the run\<close>






text \<open>
  Claim C6.  When the ground-truth file that the resolver left at the standard path loads
  to a value that is not a dict, the aggregator stops at line 89; generating the targets
  ends there with the file system untouched, whatever the output targets path, and so the
  run ends with the file system the resolver left: no targets file is written.
\<close>

theorem not_a_mapping_aborts:
  assumes "scene_path = scene_path_of dataset_root dataset_name split scene_id_int"
    and "path_isdir fs scene_path"
    and "resolve fs scene_path sensor_suffix = Inr fs'"
    and "load_json json_load fs' (final_gt_file_for_targets scene_path) = Some scene_gt_data"
    and "\<not> is_dict scene_gt_data"
  shows "aggregate scene_gt_data scene_id_int = NotADict \<and>
         generate_targets json_load json_dump fs' (final_gt_file_for_targets scene_path)
             scene_id_int output_targets_path = (MalformedGroundTruth, fs') \<and>
         setup_scene_files_and_targets json_load json_dump fs dataset_root dataset_name split
             scene_id_int sensor_suffix output_targets_filename = (MalformedGroundTruth, fs')"
proof -
  from assms(5) have agg: "aggregate scene_gt_data scene_id_int = NotADict"
    by (cases scene_gt_data) (simp_all add: aggregate_def)
  with assms(4) have gen: "generate_targets json_load json_dump fs'
      (final_gt_file_for_targets scene_path) scene_id_int out = (MalformedGroundTruth, fs')"
    for out
    by (simp add: generate_targets_def)
  from assms(2,3) have "setup_scene_files_and_targets json_load json_dump fs dataset_root
      dataset_name split scene_id_int sensor_suffix output_targets_filename =
      (MalformedGroundTruth, fs')"
    unfolding assms(1) by (simp add: setup_after_resolve gen[unfolded assms(1)])
  with agg gen show ?thesis by simp
qed

theorem not_a_mapping_aborts_witness:
  "path_isdir [''d/n/s/000004'' \<mapsto> Dir, ''d/n/s/000004/scene_gt.json'' \<mapsto> File ''[]'']
     ''d/n/s/000004'' \<and>
   resolve [''d/n/s/000004'' \<mapsto> Dir, ''d/n/s/000004/scene_gt.json'' \<mapsto> File ''[]'']
     ''d/n/s/000004'' [] =
     Inr [''d/n/s/000004'' \<mapsto> Dir, ''d/n/s/000004/scene_gt.json'' \<mapsto> File ''[]''] \<and>
   load_json [''[]'' \<mapsto> JList []]
     [''d/n/s/000004'' \<mapsto> Dir, ''d/n/s/000004/scene_gt.json'' \<mapsto> File ''[]'']
     (final_gt_file_for_targets ''d/n/s/000004'') = Some (JList []) \<and>
   \<not> is_dict (JList []) \<and>
   (aggregate (JList []) 4 = NotADict \<and>
    generate_targets [''[]'' \<mapsto> JList []] (\<lambda>targets. ''[]'')
      [''d/n/s/000004'' \<mapsto> Dir, ''d/n/s/000004/scene_gt.json'' \<mapsto> File ''[]'']
      (final_gt_file_for_targets ''d/n/s/000004'') 4 ''d/n/targets_custom.json'' =
      (MalformedGroundTruth,
       [''d/n/s/000004'' \<mapsto> Dir, ''d/n/s/000004/scene_gt.json'' \<mapsto> File ''[]'']) \<and>
    setup_scene_files_and_targets [''[]'' \<mapsto> JList []] (\<lambda>targets. ''[]'')
      [''d/n/s/000004'' \<mapsto> Dir, ''d/n/s/000004/scene_gt.json'' \<mapsto> File ''[]'']
      ''d'' ''n'' ''s'' 4 [] ''targets_custom.json'' =
      (MalformedGroundTruth,
       [''d/n/s/000004'' \<mapsto> Dir, ''d/n/s/000004/scene_gt.json'' \<mapsto> File ''[]'']))"
proof -
  have sp: "''d/n/s/000004'' = scene_path_of ''d'' ''n'' ''s'' 4" by code_simp
  have isdir: "path_isdir
      [''d/n/s/000004'' \<mapsto> Dir, ''d/n/s/000004/scene_gt.json'' \<mapsto> File ''[]'']
      ''d/n/s/000004''"
    by code_simp
  have "path_exists [''d/n/s/000004'' \<mapsto> Dir, ''d/n/s/000004/scene_gt.json'' \<mapsto> File ''[]'']
      (dst_path ''d/n/s/000004'' ''scene_gt.json'')"
    by code_simp
  then have res: "resolve
      [''d/n/s/000004'' \<mapsto> Dir, ''d/n/s/000004/scene_gt.json'' \<mapsto> File ''[]'']
      ''d/n/s/000004'' [] =
      Inr [''d/n/s/000004'' \<mapsto> Dir, ''d/n/s/000004/scene_gt.json'' \<mapsto> File ''[]'']"
    by (rule resolve_standard_names)
  have load: "load_json [''[]'' \<mapsto> JList []]
     [''d/n/s/000004'' \<mapsto> Dir, ''d/n/s/000004/scene_gt.json'' \<mapsto> File ''[]'']
     (final_gt_file_for_targets ''d/n/s/000004'') = Some (JList [])"
    by code_simp
  have nd: "\<not> is_dict (JList [])" by simp
  show ?thesis
    by (rule conjI[OF isdir conjI[OF res conjI[OF load conjI[OF nd
          not_a_mapping_aborts[OF sp isdir res load nd]]]]])
qed

text \<open>
  Claim C8.  With an empty sensor suffix and the three standard files present in the scene
  directory, the resolver succeeds and returns the file system it was given, so every file
  is byte for byte what it was; and for each of the three kinds the source path is the
  destination path, which is the branch of line 63 that copies nothing.
\<close>

theorem standard_names_no_copy:
  assumes "list_all (\<lambda>(key, std_name). path_exists fs (dst_path scene_path std_name))
             standard_files_to_prepare"
  shows "resolve fs scene_path [] = Inr fs \<and>
         list_all (\<lambda>(key, std_name).
             actual_src_path scene_path [] key std_name = dst_path scene_path std_name)
           standard_files_to_prepare"
proof -
  from assms have "path_exists fs (dst_path scene_path ''scene_gt.json'')"
    by (simp add: standard_files_to_prepare_def)
  then have "resolve fs scene_path [] = Inr fs"
    by (rule resolve_standard_names)
  then show ?thesis
    by (simp add: standard_files_to_prepare_def actual_src_path_def actual_src_name_def
        dst_path_def)
qed

theorem standard_names_no_copy_witness:
  "list_all (\<lambda>(key, std_name).
       path_exists
         [''d/n/s/000004'' \<mapsto> Dir,
          ''d/n/s/000004/scene_camera.json'' \<mapsto> File ''{}'',
          ''d/n/s/000004/scene_gt.json'' \<mapsto> File ''{}'',
          ''d/n/s/000004/scene_gt_info.json'' \<mapsto> File ''{}'']
         (dst_path ''d/n/s/000004'' std_name))
     standard_files_to_prepare \<and>
   (resolve
      [''d/n/s/000004'' \<mapsto> Dir,
       ''d/n/s/000004/scene_camera.json'' \<mapsto> File ''{}'',
       ''d/n/s/000004/scene_gt.json'' \<mapsto> File ''{}'',
       ''d/n/s/000004/scene_gt_info.json'' \<mapsto> File ''{}'']
      ''d/n/s/000004'' []
    = Inr [''d/n/s/000004'' \<mapsto> Dir,
           ''d/n/s/000004/scene_camera.json'' \<mapsto> File ''{}'',
           ''d/n/s/000004/scene_gt.json'' \<mapsto> File ''{}'',
           ''d/n/s/000004/scene_gt_info.json'' \<mapsto> File ''{}''] \<and>
    list_all (\<lambda>(key, std_name).
        actual_src_path ''d/n/s/000004'' [] key std_name = dst_path ''d/n/s/000004'' std_name)
      standard_files_to_prepare)"
proof -
  have present: "list_all (\<lambda>(key, std_name).
       path_exists
         [''d/n/s/000004'' \<mapsto> Dir,
          ''d/n/s/000004/scene_camera.json'' \<mapsto> File ''{}'',
          ''d/n/s/000004/scene_gt.json'' \<mapsto> File ''{}'',
          ''d/n/s/000004/scene_gt_info.json'' \<mapsto> File ''{}'']
         (dst_path ''d/n/s/000004'' std_name))
     standard_files_to_prepare"
    by code_simp
  show ?thesis
    by (rule conjI[OF present standard_names_no_copy[OF present]])
qed

text \<open>
  Claim C9.  With a non-empty sensor suffix and a suffixed ground-truth source that is a
  regular file, whenever the resolver succeeds and leaves a regular file at the standard
  ground-truth path, that file has the bytes of the suffixed source; so loading and
  aggregating it gives what decoding and aggregating the source's bytes gives.  (When the
  standard path is a directory the copy goes inside it and no standard file results.)
\<close>

theorem copy_preserves_ground_truth:
  assumes "sensor_suffix \<noteq> []"
    and "fs (actual_src_path scene_path sensor_suffix ''gt'' ''scene_gt.json'') = Some (File bytes)"
    and "resolve fs scene_path sensor_suffix = Inr fs'"
    and "fs' (final_gt_file_for_targets scene_path) = Some (File bytes')"
  shows "bytes' = bytes \<and>
         map_option (\<lambda>scene_gt_data. aggregate scene_gt_data scene_id_int)
            (load_json json_load fs' (final_gt_file_for_targets scene_path))
         = map_option (\<lambda>scene_gt_data. aggregate scene_gt_data scene_id_int) (json_load bytes)"
proof -
  let ?src = "actual_src_path scene_path sensor_suffix ''gt'' ''scene_gt.json''"
  let ?dst = "dst_path scene_path ''scene_gt.json''"
  have final: "final_gt_file_for_targets scene_path = ?dst"
    by (simp add: final_gt_file_for_targets_def dst_path_def)
  obtain fs1 where cam: "prepare_file scene_path sensor_suffix (''camera'', ''scene_camera.json'')
      (fs, False) = Inr (fs1, False)"
    using prepare_file_optional[of "''camera''" scene_path sensor_suffix "''scene_camera.json''" fs False]
    by auto
  from camera_step_gt[OF cam] assms(2)
  have src1: "fs1 ?src = Some (File bytes)" by simp
  have neq: "?src \<noteq> ?dst" using assms(1) by (rule gt_src_neq_dst)
  from assms(3) cam obtain st2 where
    gt: "prepare_file scene_path sensor_suffix (''gt'', ''scene_gt.json'') (fs1, False) = Inr st2"
    by (auto simp: resolve_def prepare_files_standard split: sum.splits)
  obtain fs2 fl2 where st2: "st2 = (fs2, fl2)" by (cases st2)
  from gt src1 neq have copy: "copy2 fs1 ?src ?dst = Some fs2"
    by (auto simp: prepare_file_def path_exists_def st2 split: option.splits)
  obtain fs3 where info: "prepare_file scene_path sensor_suffix
      (''gt_info'', ''scene_gt_info.json'') (fs2, fl2) = Inr (fs3, fl2)"
    using prepare_file_optional[of "''gt_info''" scene_path sensor_suffix "''scene_gt_info.json''" fs2 fl2]
    by auto
  from assms(3) cam gt info have "fs' = fs3"
    by (auto simp: resolve_def prepare_files_standard st2 split: if_splits)
  with info_step_gt[OF info] assms(4) have at2: "fs2 ?dst = Some (File bytes')"
    by (simp add: final)
  have "bytes' = bytes"
  proof (cases "fs1 ?dst = Some Dir")
    case True
    with copy src1 have "fs2 ?dst = Some Dir"
      by (auto simp: copy2_def Let_def gt_inside_neq_dst[symmetric] split: option.splits node.splits)
    with at2 show ?thesis by simp
  next
    case False
    with copy src1 have "fs2 ?dst = Some (File bytes)"
      by (auto simp: copy2_def split: option.splits node.splits)
    with at2 show ?thesis by simp
  qed
  with assms(4) show ?thesis by (simp add: load_json_def)
qed

theorem copy_preserves_ground_truth_witness:
  "''cam1'' \<noteq> [] \<and>
   [''d/n/s/000004'' \<mapsto> Dir, ''d/n/s/000004/scene_gt_cam1.json'' \<mapsto> File ''{}'']
     (actual_src_path ''d/n/s/000004'' ''cam1'' ''gt'' ''scene_gt.json'') = Some (File ''{}'') \<and>
   resolve [''d/n/s/000004'' \<mapsto> Dir, ''d/n/s/000004/scene_gt_cam1.json'' \<mapsto> File ''{}'']
     ''d/n/s/000004'' ''cam1'' =
     Inr [''d/n/s/000004'' \<mapsto> Dir, ''d/n/s/000004/scene_gt_cam1.json'' \<mapsto> File ''{}'',
          ''d/n/s/000004/scene_gt.json'' \<mapsto> File ''{}''] \<and>
   [''d/n/s/000004'' \<mapsto> Dir, ''d/n/s/000004/scene_gt_cam1.json'' \<mapsto> File ''{}'',
    ''d/n/s/000004/scene_gt.json'' \<mapsto> File ''{}'']
     (final_gt_file_for_targets ''d/n/s/000004'') = Some (File ''{}'') \<and>
   (''{}'' = ''{}'' \<and>
    map_option (\<lambda>scene_gt_data. aggregate scene_gt_data 4)
      (load_json [''{}'' \<mapsto> JObj [(''0'', JList [JObj [(''obj_id'', JInt 5)]])]]
         [''d/n/s/000004'' \<mapsto> Dir, ''d/n/s/000004/scene_gt_cam1.json'' \<mapsto> File ''{}'',
          ''d/n/s/000004/scene_gt.json'' \<mapsto> File ''{}'']
         (final_gt_file_for_targets ''d/n/s/000004''))
    = map_option (\<lambda>scene_gt_data. aggregate scene_gt_data 4)
        ([''{}'' \<mapsto> JObj [(''0'', JList [JObj [(''obj_id'', JInt 5)]])]] ''{}''))"
proof -
  have sfx: "''cam1'' \<noteq> []" by simp
  have src: "[''d/n/s/000004'' \<mapsto> Dir, ''d/n/s/000004/scene_gt_cam1.json'' \<mapsto> File ''{}'']
     (actual_src_path ''d/n/s/000004'' ''cam1'' ''gt'' ''scene_gt.json'') = Some (File ''{}'')"
    by code_simp
  have res: "resolve
     [''d/n/s/000004'' \<mapsto> Dir, ''d/n/s/000004/scene_gt_cam1.json'' \<mapsto> File ''{}'']
     ''d/n/s/000004'' ''cam1'' =
     Inr [''d/n/s/000004'' \<mapsto> Dir, ''d/n/s/000004/scene_gt_cam1.json'' \<mapsto> File ''{}'',
          ''d/n/s/000004/scene_gt.json'' \<mapsto> File ''{}'']"
    by (simp add: resolve_def prepare_files_standard prepare_file_def copy2_def path_exists_def
        actual_src_path_def actual_src_name_def dst_path_def final_gt_file_for_targets_def
        path_join_def endswith_sep_def)
  have dst: "[''d/n/s/000004'' \<mapsto> Dir, ''d/n/s/000004/scene_gt_cam1.json'' \<mapsto> File ''{}'',
    ''d/n/s/000004/scene_gt.json'' \<mapsto> File ''{}'']
     (final_gt_file_for_targets ''d/n/s/000004'') = Some (File ''{}'')"
    by code_simp
  show ?thesis
    by (rule conjI[OF sfx conjI[OF src conjI[OF res conjI[OF dst
          copy_preserves_ground_truth[OF sfx src res dst]]]]])
qed

end
